theory Spec2Isabelle
  imports Complex_Main "HOL-Library.Multiset"
begin

section \<open>Calibration practice: response collection and calibration statistics\<close>

text \<open>
  A shallow embedding of \<^verbatim>\<open>streamlit_app.py\<close>: the question bank, the form that renders
  it, \<^verbatim>\<open>collect_responses\<close>, \<^verbatim>\<open>compute_calibration\<close> and the handler of the score button.

  Conventions of the embedding:
  \<^item> a cell of the question file, as \<^verbatim>\<open>read_csv\<close> and \<^verbatim>\<open>to_dict("records")\<close> hand it over, is a
    text, a boolean (a column holding only \<^verbatim>\<open>True\<close> and \<^verbatim>\<open>False\<close>), an integer, or NaN (an
    empty cell). Floats other than NaN are not modelled: in a numeric column with an
    empty cell the integers stand for the floats of the same value. Strings are ASCII;
  \<^item> a question is a record of optional cells: a field is \<open>None\<close> when the dict has no such
    key (the file has no such column), and reading it raises \<^verbatim>\<open>KeyError\<close>;
  \<^item> a DataFrame is the list of its rows, a column the list of its cells;
  \<^item> \<^verbatim>\<open>st.session_state\<close> is a partial map from widget keys to cells; \<^verbatim>\<open>.get\<close> gives \<open>None\<close> for
    a key that is not there and for a radio with no selection, as in Python;
  \<^item> Python's \<^verbatim>\<open>int\<close> is \<open>int\<close>. Python's \<^verbatim>\<open>float\<close> is idealised as \<open>real\<close> in
    \<^verbatim>\<open>compute_calibration\<close>, where arithmetic is then exact; the rounding of IEEE doubles is
    modelled apart, for the Brier score, in the section on double arithmetic;
  \<^item> an exception is the \<open>Inl\<close> branch of a sum.
\<close>

subsection \<open>Data\<close>

datatype cell = Text string | Flag bool | Whole int | NaN

record question =
  q_id :: "cell option"
  q_round :: "cell option"
  q_prompt :: "cell option"
  qtype :: "cell option"
  option_1 :: "cell option"
  option_2 :: "cell option"
  correct :: "cell option"

text \<open>The rows that \<^verbatim>\<open>collect_responses\<close> appends (lines 171-181).\<close>

record row =
  r_id :: cell
  r_round :: cell
  r_prompt :: cell
  selected_answer :: cell
  correct_answer :: cell
  is_correct :: bool
  confidence_percent :: int

text \<open>
  The rows of \<^verbatim>\<open>grouped\<close> (lines 204-212): the group key after \<^verbatim>\<open>reset_index\<close>, the two
  aggregates after the renaming, and the two columns added afterwards.
\<close>

record bucket =
  b_confidence_percent :: int
  n_questions :: int
  n_correct :: int
  percent_correct :: real
  stated_confidence :: int

text \<open>
  \<^verbatim>\<open>KeyError\<close> carries the missing key, \<^verbatim>\<open>DuplicateWidgetID\<close> (Streamlit's error for a second
  widget with a key already in use) the repeated key.
\<close>

datatype error = KeyError string | ValueError | AttributeError | DuplicateWidgetID string

type_synonym session_state = "string \<rightharpoonup> cell"

subsection \<open>The question bank\<close>

text \<open>
  \<^verbatim>\<open>EXAMPLE_QUESTIONS\<close> (lines 46-83), a Python literal: every option is a text. The dash of
  the round labels is U+2013, three bytes in UTF-8.

  Line 90 replaces the list by \<^verbatim>\<open>pd.read_csv("questions.csv", sep=",").to_dict("records")\<close>,
  so the bank the script works on is an input: the functions below take it as the
  argument \<open>questions\<close>. The script checks no record when it binds the list.
\<close>

definition en_dash :: string where
  "en_dash = [CHR 0xE2, CHR 0x80, CHR 0x93]"

definition EXAMPLE_QUESTIONS :: "question list" where
  "EXAMPLE_QUESTIONS =
    [\<lparr>q_id = Some (Whole 1),
      q_round = Some (Text (''Round 1 '' @ en_dash @ '' Example T/F'')),
      q_prompt = Some (Text ''The blue whale is the largest animal species on Earth.''),
      qtype = Some (Text ''tf''), option_1 = Some (Text ''True''),
      option_2 = Some (Text ''False''), correct = Some (Whole 1)\<rparr>,
     \<lparr>q_id = Some (Whole 2),
      q_round = Some (Text (''Round 1 '' @ en_dash @ '' Example T/F'')),
      q_prompt = Some (Text ''Polar bears naturally live in Antarctica.''),
      qtype = Some (Text ''tf''), option_1 = Some (Text ''True''),
      option_2 = Some (Text ''False''), correct = Some (Whole 2)\<rparr>,
     \<lparr>q_id = Some (Whole 3),
      q_round = Some (Text (''Round 2 '' @ en_dash @ '' Example history'')),
      q_prompt = Some (Text ''Who was born first?''),
      qtype = Some (Text ''either''), option_1 = Some (Text ''Leonardo da Vinci''),
      option_2 = Some (Text ''Albert Einstein''), correct = Some (Whole 1)\<rparr>,
     \<lparr>q_id = Some (Whole 4),
      q_round = Some (Text (''Round 3 '' @ en_dash @ '' Example population'')),
      q_prompt = Some (Text ''Which country had more people in 2019?''),
      qtype = Some (Text ''either''), option_1 = Some (Text ''Brazil''),
      option_2 = Some (Text ''Norway''), correct = Some (Whole 1)\<rparr>]"

definition CONFIDENCE_LEVELS :: "int list" where
  "CONFIDENCE_LEVELS = [55, 65, 75, 85, 95]"

text \<open>\<^verbatim>\<open>q[key]\<close> on a dict.\<close>

definition field :: "string \<Rightarrow> cell option \<Rightarrow> error + cell" where
  "field key v = (case v of None \<Rightarrow> Inl (KeyError key) | Some c \<Rightarrow> Inr c)"

subsection \<open>Python's values and string functions\<close>

text \<open>\<^verbatim>\<open>str\<close> of an integer and of a cell, as the f-strings of the widget keys use it.\<close>

definition digit_char :: "nat \<Rightarrow> char" where
  "digit_char d = ''0123456789'' ! d"

function str_nat :: "nat \<Rightarrow> string" where
  "str_nat n = (if n < 10 then [digit_char n] else str_nat (n div 10) @ [digit_char (n mod 10)])"
  by pat_completeness auto
termination
  by (relation "measure (\<lambda>n. n)") auto

declare str_nat.simps [simp del]

definition str_int :: "int \<Rightarrow> string" where
  "str_int i = (if i < 0 then CHR ''-'' # str_nat (nat (- i)) else str_nat (nat i))"

definition py_str :: "cell \<Rightarrow> string" where
  "py_str c =
     (case c of
        Text s \<Rightarrow> s
      | Flag b \<Rightarrow> (if b then ''True'' else ''False'')
      | Whole i \<Rightarrow> str_int i
      | NaN \<Rightarrow> ''nan'')"

text \<open>The widget keys \<^verbatim>\<open>f"ans_{q['id']}"\<close> and \<^verbatim>\<open>f"conf_{q['id']}"\<close>.\<close>

definition ans_key :: "cell \<Rightarrow> string" where
  "ans_key i = ''ans_'' @ py_str i"

definition conf_key :: "cell \<Rightarrow> string" where
  "conf_key i = ''conf_'' @ py_str i"

text \<open>The labels of the confidence radio (line 137): \<^verbatim>\<open>[f"{c}%" for c in CONFIDENCE_LEVELS]\<close>.\<close>

definition confidence_labels :: "string list" where
  "confidence_labels = map (\<lambda>c. str_int c @ ''%'') CONFIDENCE_LEVELS"

text \<open>\<^verbatim>\<open>s.rstrip("%")\<close>: every trailing percent sign is removed.\<close>

definition rstrip_percent :: "string \<Rightarrow> string" where
  "rstrip_percent s = rev (dropWhile (\<lambda>c. c = CHR ''%'') (rev s))"

text \<open>
  \<^verbatim>\<open>int(s)\<close> on an ASCII string, base ten: the white space that \<^verbatim>\<open>int\<close> drops around the
  literal is tab, line feed, vertical tab, form feed, carriage return and space (not the
  separators 0x1C-0x1F, which \<^verbatim>\<open>str.strip\<close> would drop); one sign is allowed, and single
  underscores may separate digits. \<open>None\<close> is Python's \<^verbatim>\<open>ValueError\<close>.
\<close>

definition is_space :: "char \<Rightarrow> bool" where
  "is_space c = (c \<in> set [CHR 0x09, CHR 0x0A, CHR 0x0B, CHR 0x0C, CHR 0x0D, CHR 0x20])"

definition strip_space :: "string \<Rightarrow> string" where
  "strip_space s = rev (dropWhile is_space (rev (dropWhile is_space s)))"

definition digit_val :: "char \<Rightarrow> nat option" where
  "digit_val c = (let n = (of_char c :: nat) in if 48 \<le> n \<and> n \<le> 57 then Some (n - 48) else None)"

text \<open>The flag says whether the character before was a digit.\<close>

fun py_digits :: "bool \<Rightarrow> nat \<Rightarrow> string \<Rightarrow> nat option" where
  "py_digits after_digit acc [] = (if after_digit then Some acc else None)"
| "py_digits after_digit acc (c # cs) =
     (if c = CHR ''_'' then (if after_digit then py_digits False acc cs else None)
      else case digit_val c of
             None \<Rightarrow> None
           | Some d \<Rightarrow> py_digits True (10 * acc + d) cs)"

definition py_int :: "string \<Rightarrow> int option" where
  "py_int s =
     (case strip_space s of
        [] \<Rightarrow> None
      | c # cs \<Rightarrow>
          if c = CHR ''-'' then map_option (\<lambda>n. - int n) (py_digits False 0 cs)
          else if c = CHR ''+'' then map_option int (py_digits False 0 cs)
          else map_option int (py_digits False 0 (c # cs)))"

text \<open>
  Python's truth value of \<^verbatim>\<open>session_state.get(key)\<close>: \<^verbatim>\<open>None\<close>, \<^verbatim>\<open>""\<close>, \<^verbatim>\<open>False\<close> and \<^verbatim>\<open>0\<close> are
  false, NaN is true.
\<close>

definition truthy :: "cell option \<Rightarrow> bool" where
  "truthy v =
     (case v of
        None \<Rightarrow> False
      | Some (Text s) \<Rightarrow> s \<noteq> []
      | Some (Flag b) \<Rightarrow> b
      | Some (Whole i) \<Rightarrow> i \<noteq> 0
      | Some NaN \<Rightarrow> True)"

text \<open>
  Python's \<^verbatim>\<open>==\<close> on cells: texts are equal as strings, booleans and integers by value
  (\<^verbatim>\<open>True == 1\<close>), a text never equals a number, and NaN equals nothing, itself included.
\<close>

definition num_of :: "cell \<Rightarrow> int option" where
  "num_of c =
     (case c of
        Flag b \<Rightarrow> Some (if b then 1 else 0)
      | Whole i \<Rightarrow> Some i
      | _ \<Rightarrow> None)"

definition py_eq :: "cell \<Rightarrow> cell \<Rightarrow> bool" where
  "py_eq a b =
     (case (a, b) of
        (Text s, Text t) \<Rightarrow> s = t
      | _ \<Rightarrow> (case (num_of a, num_of b) of
                (Some m, Some n) \<Rightarrow> m = n
              | _ \<Rightarrow> False))"

subsection \<open>\<^verbatim>\<open>collect_responses\<close>\<close>

text \<open>
  The body of the loop (lines 158-181) for one question: \<open>Inr None\<close> is \<^verbatim>\<open>continue\<close>,
  \<open>Inr (Some r)\<close> is the row appended, \<open>Inl\<close> an exception that leaves the function. The
  steps come in the order of the source: the id (line 158), the guard (161), the
  confidence (165), \<^verbatim>\<open>correct\<close> and the option it names (168), the comparison (169), and the
  fields of the row (173-175). \<open>correct_option\<close> is line 168: only the option that
  \<^verbatim>\<open>correct\<close> names is read. A truthy
  confidence that is no text has no \<^verbatim>\<open>rstrip\<close>.
\<close>

definition correct_option :: "question \<Rightarrow> cell \<Rightarrow> error + cell" where
  "correct_option q cv =
     (if py_eq cv (Whole 1) then field ''option_1'' (option_1 q)
      else field ''option_2'' (option_2 q))"

definition collect_one :: "session_state \<Rightarrow> question \<Rightarrow> error + row option" where
  "collect_one ss q =
     (case q_id q of
        None \<Rightarrow> Inl (KeyError ''id'')
      | Some i \<Rightarrow>
          let ans = ss (ans_key i);
              conf_str = ss (conf_key i)
          in if \<not> truthy ans \<or> ans = Some (Text ''?'') \<or>
                \<not> truthy conf_str \<or> conf_str = Some (Text ''?'')
             then Inr None
             else case (ans, conf_str) of
               (Some a, Some (Text c)) \<Rightarrow>
                 (case py_int (rstrip_percent c) of
                    None \<Rightarrow> Inl ValueError
                  | Some conf_percent \<Rightarrow>
                      (case correct q of
                         None \<Rightarrow> Inl (KeyError ''correct'')
                       | Some cv \<Rightarrow>
                           (case correct_option q cv of
                              Inl e \<Rightarrow> Inl e
                            | Inr correct_option_text \<Rightarrow>
                                (case q_round q of
                                   None \<Rightarrow> Inl (KeyError ''round'')
                                 | Some rnd \<Rightarrow>
                                     (case q_prompt q of
                                        None \<Rightarrow> Inl (KeyError ''prompt'')
                                      | Some prm \<Rightarrow>
                                          Inr (Some \<lparr>r_id = i, r_round = rnd, r_prompt = prm,
                                                 selected_answer = a,
                                                 correct_answer = correct_option_text,
                                                 is_correct = py_eq a correct_option_text,
                                                 confidence_percent = conf_percent\<rparr>))))))
             | _ \<Rightarrow> Inl AttributeError)"

text \<open>The loop over \<^verbatim>\<open>questions\<close>, with \<^verbatim>\<open>rows\<close> as the accumulator.\<close>

fun collect_rows :: "session_state \<Rightarrow> question list \<Rightarrow> row list \<Rightarrow> error + row list" where
  "collect_rows ss [] rows = Inr rows"
| "collect_rows ss (q # qs) rows =
     (case collect_one ss q of
        Inl e \<Rightarrow> Inl e
      | Inr None \<Rightarrow> collect_rows ss qs rows
      | Inr (Some r) \<Rightarrow> collect_rows ss qs (rows @ [r]))"

text \<open>
  Lines 183-196: with no rows the function returns a frame with the seven columns and no
  row, otherwise the frame of the rows.
\<close>

definition collect_responses :: "question list \<Rightarrow> session_state \<Rightarrow> error + row list" where
  "collect_responses questions ss =
     (case collect_rows ss questions [] of
        Inl e \<Rightarrow> Inl e
      | Inr rows \<Rightarrow> if rows = [] then Inr [] else Inr rows)"

subsection \<open>\<^verbatim>\<open>compute_calibration\<close>\<close>

text \<open>
  \<^verbatim>\<open>df.groupby("confidence_percent")["is_correct"]\<close>: one group for each key that occurs,
  the groups in ascending order of the key (pandas sorts group keys by default), each group
  holding the \<^verbatim>\<open>is_correct\<close> cells of its rows in frame order.
\<close>

definition groupby_confidence :: "row list \<Rightarrow> (int \<times> bool list) list" where
  "groupby_confidence df =
     map (\<lambda>k. (k, map is_correct (filter (\<lambda>r. confidence_percent r = k) df)))
         (sort (remdups (map confidence_percent df)))"

text \<open>\<^verbatim>\<open>.agg(["size", "sum"])\<close>: the number of cells and the sum of the booleans as 0/1.\<close>

definition agg_size_sum :: "(int \<times> bool list) list \<Rightarrow> (int \<times> int \<times> int) list" where
  "agg_size_sum groups =
     map (\<lambda>(k, cells). (k, int (length cells), sum_list (map (\<lambda>b. if b then 1 else 0) cells)))
         groups"

text \<open>Lines 204-212: the renamed aggregates and the two derived columns.\<close>

definition grouped_frame :: "row list \<Rightarrow> bucket list" where
  "grouped_frame df =
     map (\<lambda>(k, size_k, sum_k).
            \<lparr>b_confidence_percent = k, n_questions = size_k, n_correct = sum_k,
             percent_correct = real_of_int sum_k / real_of_int size_k * 100,
             stated_confidence = k\<rparr>)
         (agg_size_sum (groupby_confidence df))"

text \<open>\<^verbatim>\<open>Series.mean()\<close> of a column with at least one cell.\<close>

definition mean :: "real list \<Rightarrow> real" where
  "mean xs = sum_list xs / real (length xs)"

text \<open>Lines 216-218, column by column.\<close>

definition conf_prob :: "row list \<Rightarrow> real list" where
  "conf_prob df = map (\<lambda>c. real_of_int c / 100) (map confidence_percent df)"

definition outcome :: "row list \<Rightarrow> int list" where
  "outcome df = map (\<lambda>b. if b then 1 else 0) (map is_correct df)"

definition brier :: "row list \<Rightarrow> real" where
  "brier df = mean (map (\<lambda>(p, y). (p - real_of_int y) ^ 2) (zip (conf_prob df) (outcome df)))"

text \<open>Line 219; \<open>None\<close> stands for \<^verbatim>\<open>np.nan\<close>.\<close>

definition accuracy :: "row list \<Rightarrow> real option" where
  "accuracy df =
     (if length df > 0 then Some (mean (map (\<lambda>b. if b then 1 else 0) (map is_correct df)))
      else None)"

text \<open>
  The function returns the frame itself when it is empty (\<open>Inl\<close>), and the tuple
  \<^verbatim>\<open>(grouped, brier, accuracy, len(df))\<close> otherwise (\<open>Inr\<close>).
\<close>

type_synonym calibration = "bucket list \<times> real \<times> real option \<times> int"

definition compute_calibration :: "row list \<Rightarrow> row list + calibration" where
  "compute_calibration df =
     (if df = [] then Inl df
      else Inr (grouped_frame df, brier df, accuracy df, int (length df)))"

subsection \<open>The score button\<close>

text \<open>
  Lines 224-230. What the handler shows: nothing when the button was not pressed, the
  warning, or the report built from the tuple of \<^verbatim>\<open>compute_calibration\<close> (summary, table and
  chart all render these four values). Unpacking a frame into four names would raise.
\<close>

datatype view = Idle | Warning string | Report calibration

definition score_handler :: "bool \<Rightarrow> question list \<Rightarrow> session_state \<Rightarrow> error + view" where
  "score_handler score_button questions ss =
     (if score_button then
        case collect_responses questions ss of
          Inl e \<Rightarrow> Inl e
        | Inr responses_df \<Rightarrow>
            if int (length responses_df) < 1
            then Inr (Warning ''You need to answer at least one questions.'')
            else (case compute_calibration responses_df of
                    Inl _ \<Rightarrow> Inl ValueError
                  | Inr result \<Rightarrow> Inr (Report result))
      else Inr Idle)"

subsection \<open>The form and a run of the script\<close>










subsection \<open>Double arithmetic\<close>















subsection \<open>The statistics and the inputs in the words of the specification\<close>

text \<open>
  The Brier-style score as the specification words it: the mean over all scored responses
  of the squared difference between \<open>stated_confidence / 100\<close> and the outcome, 1 for a
  correct answer and 0 otherwise.
\<close>

definition spec_brier :: "row list \<Rightarrow> real" where
  "spec_brier df =
     (\<Sum>r\<leftarrow>df. (real_of_int (confidence_percent r) / 100 - (if is_correct r then 1 else 0)) ^ 2)
       / real (length df)"






subsection \<open>Auxiliary functions of the proofs\<close>

text \<open>The rows one question contributes, and the bucket of one confidence level.\<close>

definition row_of :: "session_state \<Rightarrow> question \<Rightarrow> row list" where
  "row_of ss q = (case collect_one ss q of Inr (Some r) \<Rightarrow> [r] | _ \<Rightarrow> [])"

definition bucket_of :: "row list \<Rightarrow> int \<Rightarrow> bucket" where
  "bucket_of df k =
     (let cells = map is_correct (filter (\<lambda>r. confidence_percent r = k) df);
          size_k = int (length cells);
          sum_k = sum_list (map (\<lambda>b. if b then 1 else 0) cells)
      in \<lparr>b_confidence_percent = k, n_questions = size_k, n_correct = sum_k,
          percent_correct = real_of_int sum_k / real_of_int size_k * 100,
          stated_confidence = k\<rparr>)"


subsection \<open>Sample inputs\<close>

text \<open>
  A session in which questions 1 and 2 of the example bank are answered in full, question 3
  has an answer and no confidence, and question 4 has nothing.
\<close>

definition sample_session :: session_state where
  "sample_session =
     [''ans_1'' \<mapsto> Text ''True'', ''conf_1'' \<mapsto> Text ''75%'',
      ''ans_2'' \<mapsto> Text ''True'', ''conf_2'' \<mapsto> Text ''95%'',
      ''ans_3'' \<mapsto> Text ''Albert Einstein'']"

text \<open>A frame of four scored responses, its confidence levels out of order.\<close>

definition scored :: "int \<Rightarrow> string \<Rightarrow> string \<Rightarrow> int \<Rightarrow> row" where
  "scored i a t c =
     \<lparr>r_id = Whole i, r_round = Text ''Round'', r_prompt = Text ''Prompt'',
      selected_answer = Text a, correct_answer = Text t, is_correct = (a = t),
      confidence_percent = c\<rparr>"

definition sample_frame :: "row list" where
  "sample_frame =
     [scored 1 ''True'' ''True'' 75, scored 2 ''True'' ''False'' 95,
      scored 3 ''Brazil'' ''Brazil'' 55, scored 4 ''False'' ''True'' 75]"



text \<open>
  A question one of whose options is a question mark, and a question of a file whose
  option columns hold only \<^verbatim>\<open>True\<close> and \<^verbatim>\<open>False\<close>, read as booleans.
\<close>

definition punctuation_question :: question where
  "punctuation_question =
     \<lparr>q_id = Some (Whole 7), q_round = Some (Text ''Punctuation''),
      q_prompt = Some (Text ''Which sign ends a question?''), qtype = Some (Text ''either''),
      option_1 = Some (Text ''?''), option_2 = Some (Text ''!''), correct = Some (Whole 1)\<rparr>"





text \<open>
  A question whose correct option is the empty text, and a session that picks its other
  option; the session also answers the punctuation question.
\<close>

definition blank_question :: question where
  "blank_question =
     \<lparr>q_id = Some (Whole 8), q_round = Some (Text ''Blanks''),
      q_prompt = Some (Text ''Which text is empty?''), qtype = Some (Text ''either''),
      option_1 = Some (Text []), option_2 = Some (Text ''No''), correct = Some (Whole 1)\<rparr>"

definition blank_session :: session_state where
  "blank_session =
     [''ans_8'' \<mapsto> Text ''No'', ''conf_8'' \<mapsto> Text ''95%'',
      ''ans_7'' \<mapsto> Text ''?'', ''conf_7'' \<mapsto> Text ''75%'']"





text \<open>The rows expected of the sample sessions.\<close>

definition sample_rows :: "row list" where
  "sample_rows =
     [\<lparr>r_id = Whole 1, r_round = Text (''Round 1 '' @ en_dash @ '' Example T/F''),
       r_prompt = Text ''The blue whale is the largest animal species on Earth.'',
       selected_answer = Text ''True'', correct_answer = Text ''True'', is_correct = True,
       confidence_percent = 75\<rparr>,
      \<lparr>r_id = Whole 2, r_round = Text (''Round 1 '' @ en_dash @ '' Example T/F''),
       r_prompt = Text ''Polar bears naturally live in Antarctica.'',
       selected_answer = Text ''True'', correct_answer = Text ''False'', is_correct = False,
       confidence_percent = 95\<rparr>]"

definition blank_row :: row where
  "blank_row =
     \<lparr>r_id = Whole 8, r_round = Text ''Blanks'', r_prompt = Text ''Which text is empty?'',
      selected_answer = Text ''No'', correct_answer = Text [], is_correct = False,
      confidence_percent = 95\<rparr>"


section \<open>Lemmas\<close>

subsection \<open>The collector\<close>

lemma collect_rows_acc:
  "collect_rows ss qs acc =
     (case collect_rows ss qs [] of Inl e \<Rightarrow> Inl e | Inr new \<Rightarrow> Inr (acc @ new))"
proof (induction qs arbitrary: acc)
  case Nil
  show ?case by simp
next
  case (Cons q qs)
  note IH = Cons.IH
  show ?case
  proof (cases "collect_one ss q")
    case (Inl e)
    then show ?thesis by simp
  next
    case (Inr v)
    show ?thesis
    proof (cases v)
      case None
      with Inr show ?thesis by (simp add: IH [of acc])
    next
      case (Some r)
      with Inr show ?thesis
        by (simp add: IH [of "acc @ [r]"] IH [of "[r]"] split: sum.splits)
    qed
  qed
qed

lemma collect_rows_total:
  "\<forall>q\<in>set qs. \<forall>e. collect_one ss q \<noteq> Inl e \<Longrightarrow>
   collect_rows ss qs [] = Inr (concat (map (row_of ss) qs))"
proof (induction qs)
  case Nil
  show ?case by simp
next
  case (Cons q qs)
  then have IH: "collect_rows ss qs [] = Inr (concat (map (row_of ss) qs))"
    by simp
  from Cons.prems obtain v where v: "collect_one ss q = Inr v"
    by (cases "collect_one ss q") auto
  show ?case
    by (cases v) (simp_all add: v row_of_def [of ss q] IH collect_rows_acc [of ss qs "[r]" for r])
qed

lemma collect_rows_no_error:
  "collect_rows ss qs [] = Inr rows \<Longrightarrow> q \<in> set qs \<Longrightarrow> collect_one ss q \<noteq> Inl e"
proof (induction qs arbitrary: rows)
  case Nil
  then show ?case by simp
next
  case (Cons p qs)
  from Cons.prems(1) obtain v where v: "collect_one ss p = Inr v"
    by (cases "collect_one ss p") auto
  from Cons.prems(1) v obtain rest where rest: "collect_rows ss qs [] = Inr rest"
    by (cases v; cases "collect_rows ss qs []")
       (auto simp: collect_rows_acc [of ss qs "[r]" for r])
  show ?case
  proof (cases "q = p")
    case True
    with v show ?thesis by simp
  next
    case False
    with Cons.prems(2) have "q \<in> set qs" by simp
    with Cons.IH [OF rest] show ?thesis .
  qed
qed

lemma collect_responses_rows:
  "collect_responses qs ss = (case collect_rows ss qs [] of Inl e \<Rightarrow> Inl e | Inr rows \<Rightarrow> Inr rows)"
  unfolding collect_responses_def by (simp split: sum.splits)

lemma collect_responses_Inr_iff:
  "collect_responses qs ss = Inr rows \<longleftrightarrow>
     (\<forall>q\<in>set qs. \<forall>e. collect_one ss q \<noteq> Inl e) \<and> rows = concat (map (row_of ss) qs)"
proof
  assume h: "collect_responses qs ss = Inr rows"
  then have r: "collect_rows ss qs [] = Inr rows"
    by (simp add: collect_responses_rows split: sum.splits)
  then have ne: "\<forall>q\<in>set qs. \<forall>e. collect_one ss q \<noteq> Inl e"
    using collect_rows_no_error by blast
  from collect_rows_total [OF ne] r
  show "(\<forall>q\<in>set qs. \<forall>e. collect_one ss q \<noteq> Inl e) \<and> rows = concat (map (row_of ss) qs)"
    using ne by simp
next
  assume "(\<forall>q\<in>set qs. \<forall>e. collect_one ss q \<noteq> Inl e) \<and> rows = concat (map (row_of ss) qs)"
  then show "collect_responses qs ss = Inr rows"
    by (simp add: collect_responses_rows collect_rows_total)
qed

lemma collect_one_Some:
  assumes "collect_one ss q = Inr (Some r)"
  shows "\<exists>i a c n cv t rnd prm.
           q_id q = Some i \<and> ss (ans_key i) = Some a \<and> truthy (Some a) \<and> a \<noteq> Text ''?'' \<and>
           ss (conf_key i) = Some (Text c) \<and> c \<noteq> [] \<and> c \<noteq> ''?'' \<and>
           py_int (rstrip_percent c) = Some n \<and>
           correct q = Some cv \<and> correct_option q cv = Inr t \<and>
           q_round q = Some rnd \<and> q_prompt q = Some prm \<and>
           r = \<lparr>r_id = i, r_round = rnd, r_prompt = prm, selected_answer = a,
                correct_answer = t, is_correct = py_eq a t, confidence_percent = n\<rparr>"
proof -
  from assms obtain i where i: "q_id q = Some i"
    unfolding collect_one_def by (cases "q_id q") auto
  let ?ans = "ss (ans_key i)" and ?conf = "ss (conf_key i)"
  from assms i have guard: "truthy ?ans" "?ans \<noteq> Some (Text ''?'')"
      "truthy ?conf" "?conf \<noteq> Some (Text ''?'')"
    unfolding collect_one_def Let_def by (auto split: if_splits)
  from guard(1) obtain a where a: "?ans = Some a"
    unfolding truthy_def by (cases ?ans) auto
  from assms i a guard obtain c where c: "?conf = Some (Text c)"
    unfolding collect_one_def Let_def
    by (cases ?conf; cases "the ?conf") (auto split: if_splits)
  from guard(3,4) c have c_ok: "c \<noteq> []" "c \<noteq> ''?''"
    unfolding truthy_def by auto
  from assms i a c guard have rest:
    "(case py_int (rstrip_percent c) of
        None \<Rightarrow> Inl ValueError
      | Some conf_percent \<Rightarrow>
          (case correct q of
             None \<Rightarrow> Inl (KeyError ''correct'')
           | Some cv \<Rightarrow>
               (case correct_option q cv of
                  Inl e \<Rightarrow> Inl e
                | Inr correct_option_text \<Rightarrow>
                    (case q_round q of
                       None \<Rightarrow> Inl (KeyError ''round'')
                     | Some rnd \<Rightarrow>
                         (case q_prompt q of
                            None \<Rightarrow> Inl (KeyError ''prompt'')
                          | Some prm \<Rightarrow>
                              Inr (Some \<lparr>r_id = i, r_round = rnd, r_prompt = prm,
                                     selected_answer = a,
                                     correct_answer = correct_option_text,
                                     is_correct = py_eq a correct_option_text,
                                     confidence_percent = conf_percent\<rparr>)))))) = Inr (Some r)"
    unfolding collect_one_def Let_def by simp
  then obtain n where n: "py_int (rstrip_percent c) = Some n"
    by (cases "py_int (rstrip_percent c)") auto
  from rest n obtain cv where cv: "correct q = Some cv"
    by (cases "correct q") auto
  from rest n cv obtain t where t: "correct_option q cv = Inr t"
    by (cases "correct_option q cv") auto
  from rest n cv t obtain rnd where rnd: "q_round q = Some rnd"
    by (cases "q_round q") auto
  from rest n cv t rnd obtain prm where prm: "q_prompt q = Some prm"
    by (cases "q_prompt q") auto
  from rest n cv t rnd prm
  have r: "r = \<lparr>r_id = i, r_round = rnd, r_prompt = prm, selected_answer = a,
                correct_answer = t, is_correct = py_eq a t, confidence_percent = n\<rparr>"
    by simp
  from guard(1,2) a have "truthy (Some a)" "a \<noteq> Text ''?''"
    by simp_all
  with i a c c_ok n cv t rnd prm r show ?thesis
    by blast
qed



lemma collect_responses_mem:
  assumes "collect_responses qs ss = Inr rows" "r \<in> set rows"
  shows "\<exists>q\<in>set qs. collect_one ss q = Inr (Some r)"
  using assms unfolding collect_responses_Inr_iff row_of_def
  by (auto split: sum.splits option.splits)

lemma collect_responses_origin:
  assumes "collect_responses questions ss = Inr rows" "r \<in> set rows"
  shows "\<exists>q\<in>set questions. \<exists>i a c n cv t rnd prm.
           q_id q = Some i \<and> ss (ans_key i) = Some a \<and> truthy (Some a) \<and> a \<noteq> Text ''?'' \<and>
           ss (conf_key i) = Some (Text c) \<and> c \<noteq> [] \<and> c \<noteq> ''?'' \<and>
           py_int (rstrip_percent c) = Some n \<and>
           correct q = Some cv \<and> correct_option q cv = Inr t \<and>
           q_round q = Some rnd \<and> q_prompt q = Some prm \<and>
           r = \<lparr>r_id = i, r_round = rnd, r_prompt = prm, selected_answer = a,
                correct_answer = t, is_correct = py_eq a t, confidence_percent = n\<rparr>"
proof -
  from collect_responses_mem [OF assms] obtain q
    where q: "q \<in> set questions" and c: "collect_one ss q = Inr (Some r)"
    by blast
  from collect_one_Some [OF c] q show ?thesis
    by blast
qed

subsection \<open>The engine\<close>

lemma sum_bools_bounds:
  "0 \<le> sum_list (map (\<lambda>b. if b then (1::int) else 0) cells) \<and>
   sum_list (map (\<lambda>b. if b then (1::int) else 0) cells) \<le> int (length cells)"
  by (induction cells) auto

lemma grouped_frame_buckets:
  "grouped_frame df = map (bucket_of df) (sort (remdups (map confidence_percent df)))"
  unfolding grouped_frame_def agg_size_sum_def groupby_confidence_def bucket_of_def
  by (simp add: comp_def Let_def)

lemma stated_confidence_grouped:
  "map stated_confidence (grouped_frame df) = sort (remdups (map confidence_percent df))"
  unfolding grouped_frame_buckets by (simp add: comp_def bucket_of_def Let_def)

lemma n_questions_bucket_of:
  "n_questions (bucket_of df k) = int (length (filter (\<lambda>r. confidence_percent r = k) df))"
  by (simp add: bucket_of_def Let_def)

lemma count_keys:
  "count (image_mset f (mset xs)) k = length (filter (\<lambda>r. f r = k) xs)"
  by (induction xs) auto

lemma sum_group_sizes:
  "(\<Sum>k\<leftarrow>sort (remdups (map f xs)). length (filter (\<lambda>r. f r = k) xs)) = length xs"
proof -
  let ?M = "image_mset f (mset xs)"
  have "(\<Sum>k\<leftarrow>sort (remdups (map f xs)). length (filter (\<lambda>r. f r = k) xs))
          = (\<Sum>k\<in>set (sort (remdups (map f xs))). length (filter (\<lambda>r. f r = k) xs))"
    by (rule sum_list_distinct_conv_sum_set) simp
  also have "\<dots> = (\<Sum>k\<in>set_mset ?M. count ?M k)"
    by (simp add: count_keys)
  also have "\<dots> = size ?M"
    by (simp add: size_multiset_overloaded_eq)
  finally show ?thesis by simp
qed

lemma int_sum_list: "(\<Sum>k\<leftarrow>ks. int (g k)) = int (\<Sum>k\<leftarrow>ks. g k)"
  by (induction ks) simp_all

lemma sum_n_questions:
  "sum_list (map n_questions (grouped_frame (df :: row list))) = int (length df)"
proof -
  have "sum_list (map n_questions (grouped_frame df))
          = (\<Sum>k\<leftarrow>sort (remdups (map confidence_percent df)).
               int (length (filter (\<lambda>r. confidence_percent r = k) df)))"
    unfolding grouped_frame_buckets by (simp add: comp_def n_questions_bucket_of)
  also have "\<dots> = int (\<Sum>k\<leftarrow>sort (remdups (map confidence_percent df)).
               length (filter (\<lambda>r. confidence_percent r = k) df))"
    by (rule int_sum_list)
  finally show ?thesis by (simp add: sum_group_sizes)
qed




lemma brier_eq: "brier df = spec_brier df"
  unfolding brier_def spec_brier_def mean_def conf_prob_def outcome_def
  by (simp add: zip_map_map zip_same_conv_map comp_def case_prod_beta if_distrib [of real_of_int]
        cong: if_cong)



subsection \<open>Evaluation of the sample frame\<close>

lemma sample_frame_eval:
  "compute_calibration sample_frame =
     Inr ([\<lparr>b_confidence_percent = 55, n_questions = 1, n_correct = 1, percent_correct = 100,
            stated_confidence = 55\<rparr>,
           \<lparr>b_confidence_percent = 75, n_questions = 2, n_correct = 1, percent_correct = 50,
            stated_confidence = 75\<rparr>,
           \<lparr>b_confidence_percent = 95, n_questions = 1, n_correct = 0, percent_correct = 0,
            stated_confidence = 95\<rparr>],
          173 / 400, Some (1 / 2), 4)"
  by (simp add: compute_calibration_def sample_frame_def scored_def grouped_frame_def
        agg_size_sum_def groupby_confidence_def brier_def accuracy_def mean_def conf_prob_def
        outcome_def power2_eq_square)

lemma sample_frame_nonempty: "sample_frame \<noteq> []"
  by (simp add: sample_frame_def)

subsection \<open>Buckets of the engine\<close>

lemma bucket_mem:
  assumes "compute_calibration df = Inr (g, b, a, n)" "bk \<in> set g"
  shows "\<exists>k\<in>set (map confidence_percent df). bk = bucket_of df k"
  using assms unfolding compute_calibration_def grouped_frame_buckets
  by (auto split: if_splits)

lemma filter_key_nonempty:
  "k \<in> set (map f xs) \<Longrightarrow> 0 < length (filter (\<lambda>r. f r = k) xs)"
  by (induction xs) auto

subsection \<open>The form\<close>














subsection \<open>Double arithmetic on the two frames\<close>



























subsection \<open>Evaluation of the sample sessions\<close>

lemma widget_keys:
  "ans_key (Whole 1) = ''ans_1''" "conf_key (Whole 1) = ''conf_1''"
  "ans_key (Whole 2) = ''ans_2''" "conf_key (Whole 2) = ''conf_2''"
  "ans_key (Whole 3) = ''ans_3''" "conf_key (Whole 3) = ''conf_3''"
  "ans_key (Whole 4) = ''ans_4''" "conf_key (Whole 4) = ''conf_4''"
  "ans_key (Whole 6) = ''ans_6''" "conf_key (Whole 6) = ''conf_6''"
  "ans_key (Whole 7) = ''ans_7''" "conf_key (Whole 7) = ''conf_7''"
  "ans_key (Whole 8) = ''ans_8''" "conf_key (Whole 8) = ''conf_8''"
  "ans_key (Whole 9) = ''ans_9''" "conf_key (Whole 9) = ''conf_9''"
  by (simp_all add: ans_key_def conf_key_def py_str_def str_int_def str_nat.simps digit_char_def)

lemma py_int_labels:
  "py_int (rstrip_percent ''75%'') = Some 75"
  "py_int (rstrip_percent ''85%'') = Some 85"
  "py_int (rstrip_percent ''95%'') = Some 95"
  by (simp_all add: py_int_def rstrip_percent_def strip_space_def is_space_def digit_val_def)

lemma confidence_labels_parse:
  "map (\<lambda>l. py_int (rstrip_percent l)) confidence_labels = map Some CONFIDENCE_LEVELS"
  by (simp add: confidence_labels_def CONFIDENCE_LEVELS_def str_int_def str_nat.simps
        digit_char_def py_int_def rstrip_percent_def strip_space_def is_space_def digit_val_def)

lemmas collect_eval =
  collect_responses_def collect_one_def correct_option_def field_def truthy_def py_eq_def
  num_of_def widget_keys py_int_labels Let_def

lemma empty_session_eval:
  "collect_responses EXAMPLE_QUESTIONS Map.empty = Inr []"
  by (simp add: EXAMPLE_QUESTIONS_def collect_eval)

lemma sample_session_eval:
  "collect_responses EXAMPLE_QUESTIONS sample_session = Inr sample_rows"
  by (simp add: EXAMPLE_QUESTIONS_def sample_session_def sample_rows_def collect_eval)



lemma blank_eval:
  "collect_responses [blank_question, punctuation_question] blank_session = Inr [blank_row]"
  by (simp add: blank_question_def punctuation_question_def blank_session_def blank_row_def
        collect_eval)










subsection \<open>Inputs of the collector\<close>









section \<open>The claims\<close>

subsection \<open>The calibration engine\<close>

text \<open>
  Claim C1. For every non-empty list of scored responses, the Brier score that
  \<^verbatim>\<open>compute_calibration\<close> returns is the arithmetic mean, over all responses of the list, of
  \<open>(stated_confidence / 100 - outcome)\<^sup>2\<close>, where the outcome is 1 for a correct response and 0
  otherwise. The function returns the tuple on every such list. (Floats are exact reals
  here.)
\<close>

theorem brier_score_is_mean_squared_error:
  assumes "df \<noteq> []"
  shows "\<exists>grouped acc. compute_calibration df = Inr (grouped, spec_brier df, acc, int (length df))"
  using assms unfolding compute_calibration_def by (simp add: brier_eq)

theorem brier_score_is_mean_squared_error_witness:
  "sample_frame \<noteq> [] \<and>
   (\<exists>grouped acc. compute_calibration sample_frame = Inr (grouped, 173 / 400, acc, 4))"
proof -
  have v: "spec_brier sample_frame = 173 / 400"
    by (simp add: spec_brier_def sample_frame_def scored_def power2_eq_square)
  have l: "int (length sample_frame) = 4"
    by (simp add: sample_frame_def)
  from brier_score_is_mean_squared_error [OF sample_frame_nonempty] show ?thesis
    unfolding v l using sample_frame_nonempty by simp
qed

text \<open>
  Claim C3. For every non-empty list of scored responses and every bucket that
  \<^verbatim>\<open>compute_calibration\<close> produces, \<open>0 \<le> n_correct \<le> n_questions\<close>, the bucket is not
  empty, and \<open>percent_correct\<close> is \<open>100 \<sqdot> n_correct / n_questions\<close>: exactly in real
  arithmetic, hence within the tolerance \<open>10\<^sup>-\<^sup>9\<close>.
\<close>

theorem bucket_counts_and_percent:
  assumes "df \<noteq> []"
    and "compute_calibration df = Inr (g, b, a, n)"
    and "bk \<in> set g"
  shows "0 \<le> n_correct bk \<and> n_correct bk \<le> n_questions bk \<and> 0 < n_questions bk \<and>
         percent_correct bk = 100 * real_of_int (n_correct bk) / real_of_int (n_questions bk) \<and>
         \<bar>percent_correct bk - 100 * real_of_int (n_correct bk) / real_of_int (n_questions bk)\<bar>
           \<le> 1 / 10 ^ 9"
proof -
  from bucket_mem [OF assms(2,3)] obtain k
    where k: "k \<in> set (map confidence_percent df)" and bk: "bk = bucket_of df k"
    by blast
  let ?cells = "map is_correct (filter (\<lambda>r. confidence_percent r = k) df)"
  have c: "n_correct bk = sum_list (map (\<lambda>b. if b then 1 else 0) ?cells)"
    and q: "n_questions bk = int (length ?cells)"
    and p: "percent_correct bk = real_of_int (n_correct bk) / real_of_int (n_questions bk) * 100"
    unfolding bk bucket_of_def Let_def by simp_all
  have pos: "0 < n_questions bk"
    unfolding q using filter_key_nonempty [OF k] by simp
  have lo: "0 \<le> n_correct bk" and hi: "n_correct bk \<le> n_questions bk"
    unfolding c q using sum_bools_bounds [of ?cells] by simp_all
  have eq: "percent_correct bk = 100 * real_of_int (n_correct bk) / real_of_int (n_questions bk)"
    unfolding p by simp
  show ?thesis
    using lo hi pos eq by simp
qed

theorem bucket_counts_and_percent_witness:
  "sample_frame \<noteq> [] \<and>
   compute_calibration sample_frame =
     Inr ([\<lparr>b_confidence_percent = 55, n_questions = 1, n_correct = 1, percent_correct = 100,
            stated_confidence = 55\<rparr>,
           \<lparr>b_confidence_percent = 75, n_questions = 2, n_correct = 1, percent_correct = 50,
            stated_confidence = 75\<rparr>,
           \<lparr>b_confidence_percent = 95, n_questions = 1, n_correct = 0, percent_correct = 0,
            stated_confidence = 95\<rparr>],
          173 / 400, Some (1 / 2), 4) \<and>
   percent_correct \<lparr>b_confidence_percent = 75, n_questions = 2, n_correct = 1,
                    percent_correct = 50, stated_confidence = 75\<rparr> = 100 * 1 / 2"
  using bucket_counts_and_percent [OF sample_frame_nonempty sample_frame_eval,
      of "\<lparr>b_confidence_percent = 75, n_questions = 2, n_correct = 1, percent_correct = 50,
            stated_confidence = 75\<rparr>"]
    sample_frame_nonempty sample_frame_eval
  by simp

text \<open>
  Claim C4. For every non-empty list of scored responses the buckets partition the
  input: their \<open>n_questions\<close> sum to \<open>n_scored\<close>, the length of the list; no bucket has
  \<open>n_questions = 0\<close>; and there is exactly one bucket for each confidence level that
  occurs in the list.
\<close>

theorem buckets_partition_input:
  assumes "df \<noteq> []"
    and "compute_calibration df = Inr (g, b, a, n)"
  shows "sum_list (map n_questions g) = n \<and> n = int (length df) \<and>
         (\<forall>bk\<in>set g. 1 \<le> n_questions bk) \<and>
         distinct (map stated_confidence g) \<and>
         set (map stated_confidence g) = set (map confidence_percent df)"
proof -
  from assms have g: "g = grouped_frame df" and n: "n = int (length df)"
    unfolding compute_calibration_def by simp_all
  have s: "sum_list (map n_questions g) = n"
    unfolding g n by (rule sum_n_questions)
  have pos: "\<forall>bk\<in>set g. 1 \<le> n_questions bk"
  proof
    fix bk assume "bk \<in> set g"
    from bucket_mem [OF assms(2) this] obtain k
      where k: "k \<in> set (map confidence_percent df)" and bk: "bk = bucket_of df k"
      by blast
    have "0 < length (filter (\<lambda>r. confidence_percent r = k) df)"
      using k by (rule filter_key_nonempty)
    then show "1 \<le> n_questions bk"
      unfolding bk n_questions_bucket_of by linarith
  qed
  have d: "distinct (map stated_confidence g)"
    unfolding g stated_confidence_grouped by simp
  have e: "set (map stated_confidence g) = set (map confidence_percent df)"
    unfolding g stated_confidence_grouped by simp
  from s n pos d e show ?thesis by blast
qed

theorem buckets_partition_input_witness:
  "sample_frame \<noteq> [] \<and>
   compute_calibration sample_frame =
     Inr ([\<lparr>b_confidence_percent = 55, n_questions = 1, n_correct = 1, percent_correct = 100,
            stated_confidence = 55\<rparr>,
           \<lparr>b_confidence_percent = 75, n_questions = 2, n_correct = 1, percent_correct = 50,
            stated_confidence = 75\<rparr>,
           \<lparr>b_confidence_percent = 95, n_questions = 1, n_correct = 0, percent_correct = 0,
            stated_confidence = 95\<rparr>],
          173 / 400, Some (1 / 2), 4) \<and>
   (1 + 2 + 1 :: int) = int (length sample_frame) \<and>
   set (map confidence_percent sample_frame) = {55, 75, 95}"
  using buckets_partition_input [OF sample_frame_nonempty sample_frame_eval]
    sample_frame_nonempty sample_frame_eval
  by simp

text \<open>
  Claim C9. For every non-empty list of scored responses the list of buckets is sorted by
  \<open>stated_confidence\<close> in ascending order (strictly, since no level occurs twice),
  whatever the order of the levels in the input.
\<close>

theorem buckets_sorted_ascending:
  assumes "df \<noteq> []"
    and "compute_calibration df = Inr (g, b, a, n)"
  shows "sorted (map stated_confidence g) \<and> sorted_wrt (<) (map stated_confidence g)"
proof -
  from assms have g: "g = grouped_frame df"
    unfolding compute_calibration_def by simp
  show ?thesis
    unfolding g stated_confidence_grouped by (simp add: strict_sorted_iff)
qed

theorem buckets_sorted_ascending_witness:
  "sample_frame \<noteq> [] \<and>
   map confidence_percent sample_frame = [75, 95, 55, 75] \<and>
   compute_calibration sample_frame =
     Inr ([\<lparr>b_confidence_percent = 55, n_questions = 1, n_correct = 1, percent_correct = 100,
            stated_confidence = 55\<rparr>,
           \<lparr>b_confidence_percent = 75, n_questions = 2, n_correct = 1, percent_correct = 50,
            stated_confidence = 75\<rparr>,
           \<lparr>b_confidence_percent = 95, n_questions = 1, n_correct = 0, percent_correct = 0,
            stated_confidence = 95\<rparr>],
          173 / 400, Some (1 / 2), 4) \<and>
   sorted_wrt (<) [55, 75, 95 :: int]"
  using buckets_sorted_ascending [OF sample_frame_nonempty sample_frame_eval]
    sample_frame_nonempty sample_frame_eval
  by (simp add: sample_frame_def scored_def)




subsection \<open>The response collector\<close>

text \<open>
  Claim C2. Every row that \<^verbatim>\<open>collect_responses\<close> produces comes from a question of the
  bank, and its \<open>is_correct\<close> is true if and only if the value the user selected equals, in
  Python's sense, the value of the option slot that the question's \<open>correct\<close> field names:
  \<open>option_1\<close> when \<open>correct = 1\<close>, \<open>option_2\<close> when \<open>correct = 2\<close>. For texts this is equality
  of the texts; indices are not compared.
\<close>

theorem is_correct_by_option_text:
  assumes "collect_responses questions ss = Inr rows"
    and "r \<in> set rows"
  shows "\<exists>q\<in>set questions.
           q_id q = Some (r_id r) \<and> q_round q = Some (r_round r) \<and>
           q_prompt q = Some (r_prompt r) \<and>
           ss (ans_key (r_id r)) = Some (selected_answer r) \<and>
           (correct q = Some (Whole 1) \<longrightarrow>
              option_1 q = Some (correct_answer r) \<and>
              (is_correct r \<longleftrightarrow> py_eq (selected_answer r) (correct_answer r))) \<and>
           (correct q = Some (Whole 2) \<longrightarrow>
              option_2 q = Some (correct_answer r) \<and>
              (is_correct r \<longleftrightarrow> py_eq (selected_answer r) (correct_answer r))) \<and>
           (\<forall>a t. selected_answer r = Text a \<and> correct_answer r = Text t \<longrightarrow>
              (is_correct r \<longleftrightarrow> a = t))"
proof -
  from collect_responses_origin [OF assms] obtain q i a cv t rnd prm n
    where q: "q \<in> set questions" and i: "q_id q = Some i"
      and a: "ss (ans_key i) = Some a"
      and cv: "correct q = Some cv" "correct_option q cv = Inr t"
      and f: "q_round q = Some rnd" "q_prompt q = Some prm"
      and r: "r = \<lparr>r_id = i, r_round = rnd, r_prompt = prm, selected_answer = a,
                correct_answer = t, is_correct = py_eq a t, confidence_percent = n\<rparr>"
    by blast
  have o1: "option_1 q = Some t" if "cv = Whole 1"
    using cv(2) that unfolding correct_option_def field_def py_eq_def num_of_def
    by (simp split: option.splits)
  have o2: "option_2 q = Some t" if "cv = Whole 2"
    using cv(2) that unfolding correct_option_def field_def py_eq_def num_of_def
    by (simp split: option.splits)
  have text_eq: "py_eq (Text x) (Text y) \<longleftrightarrow> x = y" for x y
    by (simp add: py_eq_def)
  have "q_id q = Some (r_id r) \<and> q_round q = Some (r_round r) \<and>
           q_prompt q = Some (r_prompt r) \<and>
           ss (ans_key (r_id r)) = Some (selected_answer r) \<and>
           (correct q = Some (Whole 1) \<longrightarrow>
              option_1 q = Some (correct_answer r) \<and>
              (is_correct r \<longleftrightarrow> py_eq (selected_answer r) (correct_answer r))) \<and>
           (correct q = Some (Whole 2) \<longrightarrow>
              option_2 q = Some (correct_answer r) \<and>
              (is_correct r \<longleftrightarrow> py_eq (selected_answer r) (correct_answer r))) \<and>
           (\<forall>a t. selected_answer r = Text a \<and> correct_answer r = Text t \<longrightarrow>
              (is_correct r \<longleftrightarrow> a = t))"
    unfolding r using i a cv(1) f o1 o2 text_eq by simp
  with q show ?thesis by blast
qed

theorem is_correct_by_option_text_witness:
  "collect_responses EXAMPLE_QUESTIONS sample_session = Inr sample_rows \<and>
   sample_rows ! 1 \<in> set sample_rows \<and>
   selected_answer (sample_rows ! 1) = Text ''True'' \<and> \<not> is_correct (sample_rows ! 1) \<and>
   (\<exists>q\<in>set EXAMPLE_QUESTIONS. q_id q = Some (Whole 2) \<and> correct q = Some (Whole 2) \<and>
      option_2 q = Some (Text ''False'') \<and> sample_session (ans_key (Whole 2)) = Some (Text ''True''))"
proof -
  have m: "sample_rows ! 1 \<in> set sample_rows"
    by (simp add: sample_rows_def)
  have v: "r_id (sample_rows ! 1) = Whole 2" "selected_answer (sample_rows ! 1) = Text ''True''"
    "correct_answer (sample_rows ! 1) = Text ''False''" "\<not> is_correct (sample_rows ! 1)"
    by (simp_all add: sample_rows_def)
  from is_correct_by_option_text [OF sample_session_eval m]
  obtain q where q: "q \<in> set EXAMPLE_QUESTIONS" "q_id q = Some (Whole 2)"
      "sample_session (ans_key (Whole 2)) = Some (Text ''True'')"
    unfolding v by blast
  from q(1,2) have "correct q = Some (Whole 2)" "option_2 q = Some (Text ''False'')"
    by (auto simp: EXAMPLE_QUESTIONS_def)
  with q sample_session_eval m v show ?thesis by blast
qed




text \<open>
  Claim C10 concludes that a question whose correct option is the empty text can never be
  scored. It can: when the user selects the other option, the question gets a row, scored
  as incorrect.
\<close>

theorem blank_correct_option_scored:
  "correct blank_question = Some (Whole 1) \<and> option_1 blank_question = Some (Text []) \<and>
   q_id blank_question = Some (r_id blank_row) \<and> \<not> is_correct blank_row \<and>
   collect_responses [blank_question, punctuation_question] blank_session = Inr [blank_row]"
  using blank_eval by (simp add: blank_question_def blank_row_def)

text \<open>
  Claim C10, amended. A question whose selected text or confidence string in the session
  is empty or a question mark contributes no row, although both fields are present.
  Every row carries the value of its question's correct option as \<open>correct_answer\<close>, and a
  row whose \<open>correct_answer\<close> is the empty text (or a question mark) is never correct: such a
  question can never be scored as correct.
\<close>

theorem empty_or_question_mark_excluded:
  assumes "collect_responses questions ss = Inr rows"
  shows "(ss (ans_key i) = Some (Text []) \<or> ss (ans_key i) = Some (Text ''?'') \<or>
          ss (conf_key i) = Some (Text []) \<or> ss (conf_key i) = Some (Text ''?'')
            \<longrightarrow> i \<notin> r_id ` set rows) \<and>
         (\<forall>r\<in>set rows.
            (\<exists>p\<in>set questions. \<exists>cv. q_id p = Some (r_id r) \<and> correct p = Some cv \<and>
               (if py_eq cv (Whole 1) then option_1 p else option_2 p) =
                 Some (correct_answer r)) \<and>
            (correct_answer r = Text [] \<or> correct_answer r = Text ''?'' \<longrightarrow> \<not> is_correct r))"
proof -
  have origin: "\<exists>p\<in>set questions. \<exists>a c cv.
           q_id p = Some (r_id r) \<and>
           ss (ans_key (r_id r)) = Some a \<and> truthy (Some a) \<and> a \<noteq> Text ''?'' \<and>
           ss (conf_key (r_id r)) = Some (Text c) \<and> c \<noteq> [] \<and> c \<noteq> ''?'' \<and>
           correct p = Some cv \<and> correct_option p cv = Inr (correct_answer r) \<and>
           selected_answer r = a \<and> is_correct r = py_eq a (correct_answer r)"
    if "r \<in> set rows" for r
  proof -
    from collect_responses_origin [OF assms that] obtain p i a c n cv t rnd prm
      where p: "p \<in> set questions"
        and f: "q_id p = Some i" "ss (ans_key i) = Some a" "truthy (Some a)" "a \<noteq> Text ''?''"
               "ss (conf_key i) = Some (Text c)" "c \<noteq> []" "c \<noteq> ''?''"
               "correct p = Some cv" "correct_option p cv = Inr t"
        and r: "r = \<lparr>r_id = i, r_round = rnd, r_prompt = prm, selected_answer = a,
                correct_answer = t, is_correct = py_eq a t, confidence_percent = n\<rparr>"
      by blast
    have "r_id r = i" "selected_answer r = a" "correct_answer r = t"
      "is_correct r = py_eq a (correct_answer r)"
      unfolding r by simp_all
    with p f show ?thesis by blast
  qed
  have excluded: "i \<notin> r_id ` set rows"
    if bad: "ss (ans_key i) = Some (Text []) \<or> ss (ans_key i) = Some (Text ''?'') \<or>
             ss (conf_key i) = Some (Text []) \<or> ss (conf_key i) = Some (Text ''?'')"
  proof
    assume "i \<in> r_id ` set rows"
    then obtain r where r: "r \<in> set rows" and i: "r_id r = i"
      by auto
    from origin [OF r] obtain a c
      where f: "ss (ans_key i) = Some a" "truthy (Some a)" "a \<noteq> Text ''?''"
               "ss (conf_key i) = Some (Text c)" "c \<noteq> []" "c \<noteq> ''?''"
      unfolding i by blast
    with bad show False
      by (auto simp: truthy_def)
  qed
  have slot: "\<exists>p\<in>set questions. \<exists>cv. q_id p = Some (r_id r) \<and> correct p = Some cv \<and>
               (if py_eq cv (Whole 1) then option_1 p else option_2 p) = Some (correct_answer r)"
    if "r \<in> set rows" for r
  proof -
    from origin [OF that] obtain p cv
      where p: "p \<in> set questions" "q_id p = Some (r_id r)" "correct p = Some cv"
        and t: "correct_option p cv = Inr (correct_answer r)"
      by blast
    from t have "(if py_eq cv (Whole 1) then option_1 p else option_2 p) = Some (correct_answer r)"
      unfolding correct_option_def field_def by (auto split: if_splits option.splits)
    with p show ?thesis by blast
  qed
  have never_correct: "\<not> is_correct r"
    if "r \<in> set rows" and e: "correct_answer r = Text [] \<or> correct_answer r = Text ''?''" for r
  proof -
    from origin [OF that(1)] obtain a
      where a: "truthy (Some a)" "a \<noteq> Text ''?''" "is_correct r = py_eq a (correct_answer r)"
      by blast
    from e a(1,2) have "\<not> py_eq a (correct_answer r)"
      unfolding py_eq_def num_of_def truthy_def by (cases a) auto
    with a(3) show ?thesis by simp
  qed
  from excluded slot never_correct show ?thesis
    by blast
qed

theorem empty_or_question_mark_excluded_witness:
  "collect_responses [blank_question, punctuation_question] blank_session = Inr [blank_row] \<and>
   q_id punctuation_question = Some (Whole 7) \<and>
   blank_session (ans_key (Whole 7)) = Some (Text ''?'') \<and>
   Whole 7 \<notin> r_id ` set [blank_row] \<and>
   correct_answer blank_row = Text [] \<and> \<not> is_correct blank_row"
proof -
  have a: "blank_session (ans_key (Whole 7)) = Some (Text ''?'')"
    by (simp add: blank_session_def widget_keys)
  have c: "correct_answer blank_row = Text []"
    by (simp add: blank_row_def)
  from empty_or_question_mark_excluded [OF blank_eval, of "Whole 7"] a c
  have "Whole 7 \<notin> r_id ` set [blank_row]" "\<not> is_correct blank_row"
    by simp_all
  with blank_eval a c show ?thesis
    by (simp add: punctuation_question_def)
qed

subsection \<open>The score button and the question bank\<close>

text \<open>
  Claim C7. When \<^verbatim>\<open>collect_responses\<close> yields no row at scoring time, the handler of the
  score button shows the warning and nothing else: \<^verbatim>\<open>compute_calibration\<close> is not called, and
  no report with buckets and summary statistics is produced.
\<close>

theorem no_responses_warns:
  assumes "collect_responses questions ss = Inr []"
  shows "score_handler True questions ss =
           Inr (Warning ''You need to answer at least one questions.'') \<and>
         (\<forall>c. score_handler True questions ss \<noteq> Inr (Report c))"
  using assms unfolding score_handler_def by simp

theorem no_responses_warns_witness:
  "collect_responses EXAMPLE_QUESTIONS Map.empty = Inr [] \<and>
   score_handler True EXAMPLE_QUESTIONS Map.empty =
     Inr (Warning ''You need to answer at least one questions.'')"
  using no_responses_warns [OF empty_session_eval] empty_session_eval by simp




end
